theory Spec2Isabelle
  imports Main "HOL-Library.Sublist"
begin

section \<open>The admin registration layer of the admission portal\<close>

text \<open>
  The module \<^verbatim>\<open>admission/admin.py\<close> registers Department, Teacher, Application and
  Payment with the framework's admin site and adds derived list columns, one inline
  editor and four bulk actions. The development below embeds those helpers, together
  with the parts of the framework they call: string formatting, URL reversing, related
  object queries and the bulk update.
\<close>

subsection \<open>Errors the framework can signal\<close>

text \<open>
  The module has no \<^verbatim>\<open>raise\<close> and no \<^verbatim>\<open>try\<close> of its own. The errors below are the ones
  the called framework functions raise: \<^verbatim>\<open>reverse\<close> raises NoReverseMatch, following a
  foreign key to a missing row raises DoesNotExist, \<^verbatim>\<open>str.format\<close> raises IndexError
  when a replacement field has no argument.
\<close>

datatype error = NoReverseMatch | DoesNotExist | IndexError

subsection \<open>Strings: str, conditional\_escape, format\_html\<close>

text \<open>
  Strings are byte lists; the two non-ASCII characters of the templates (the check mark
  U+2713 and the ballot cross U+2717) are written as their UTF-8 bytes.
\<close>

definition digit_char :: "nat \<Rightarrow> char" where
  "digit_char d = ''0123456789'' ! d"

fun str_nat :: "nat \<Rightarrow> string" where
  "str_nat n = (if n < 10 then [digit_char n] else str_nat (n div 10) @ [digit_char (n mod 10)])"

declare str_nat.simps [simp del]

text \<open>Python's \<^verbatim>\<open>str\<close> on an integer.\<close>

definition str_int :: "int \<Rightarrow> string" where
  "str_int i = (if i < 0 then CHR ''-'' # str_nat (nat (- i)) else str_nat (nat i))"

text \<open>\<^verbatim>\<open>html.escape\<close>, which \<^verbatim>\<open>conditional_escape\<close> applies to every argument that is
  not already marked safe (no argument in this module is).\<close>

definition escape_char :: "char \<Rightarrow> string" where
  "escape_char c =
     (if c = CHR ''&'' then ''&amp;''
      else if c = CHR ''<'' then ''&lt;''
      else if c = CHR ''>'' then ''&gt;''
      else if c = CHR 0x22 then ''&quot;''
      else if c = CHR 0x27 then ''&#x27;''
      else [c])"

definition conditional_escape :: "string \<Rightarrow> string" where
  "conditional_escape s = concat (map escape_char s)"

text \<open>
  \<^verbatim>\<open>format_html(template, *args)\<close> is \<^verbatim>\<open>template.format(*map(conditional_escape, args))\<close>.
  Each \<^verbatim>\<open>{}\<close> takes the next argument; a field with no argument left raises IndexError;
  surplus arguments are ignored. The templates of this module contain no other braces.
  The arguments are passed as the strings \<^verbatim>\<open>str\<close> gives. A call with a template and no
  argument, as in the negative branch of \<^verbatim>\<open>has_payment\<close>, returns the template: this is
  the behaviour of the framework versions that accept such a call.
\<close>

fun format_html :: "string \<Rightarrow> string list \<Rightarrow> error + string" where
  "format_html (c # d # t) args =
     (if c = CHR ''{'' \<and> d = CHR ''}'' then
        (case args of
           [] \<Rightarrow> Inl IndexError
         | a # rest \<Rightarrow>
             (case format_html t rest of
                Inl e \<Rightarrow> Inl e
              | Inr s \<Rightarrow> Inr (conditional_escape a @ s)))
      else
        (case format_html (d # t) args of
           Inl e \<Rightarrow> Inl e
         | Inr s \<Rightarrow> Inr (c # s)))"
| "format_html t args = Inr t"

subsection \<open>URL reversing\<close>

text \<open>
  A URL pattern is a sequence of literal text and parameters; the URL configuration maps
  names to patterns. \<^verbatim>\<open>reverse(name, args=...)\<close> raises NoReverseMatch when the name is
  not registered or when the arguments do not fill the pattern's parameters.
\<close>

datatype url_part = Lit string | Param

type_synonym urlconf = "(string \<times> url_part list) list"

fun fill_pattern :: "url_part list \<Rightarrow> string list \<Rightarrow> error + string" where
  "fill_pattern [] [] = Inr []"
| "fill_pattern [] (a # args) = Inl NoReverseMatch"
| "fill_pattern (Lit s # ps) args =
     (case fill_pattern ps args of Inl e \<Rightarrow> Inl e | Inr u \<Rightarrow> Inr (s @ u))"
| "fill_pattern (Param # ps) [] = Inl NoReverseMatch"
| "fill_pattern (Param # ps) (a # args) =
     (case fill_pattern ps args of Inl e \<Rightarrow> Inl e | Inr u \<Rightarrow> Inr (a @ u))"

definition reverse :: "urlconf \<Rightarrow> string \<Rightarrow> string list \<Rightarrow> error + string" where
  "reverse conf name args =
     (case map_of conf name of
        None \<Rightarrow> Inl NoReverseMatch
      | Some pat \<Rightarrow> fill_pattern pat args)"

text \<open>
  The names the admin site registers for one model admin (\<^verbatim>\<open>ModelAdmin.get_urls\<close>):
  \<^verbatim>\<open>admin:<app_label>_<model_name>_changelist\<close> and its siblings, under the path at
  which the project mounts the admin site.
\<close>

definition model_urls :: "string \<Rightarrow> string \<Rightarrow> string \<Rightarrow> urlconf" where
  "model_urls mount app_label model_name =
     (let n = ''admin:'' @ app_label @ ''_'' @ model_name;
          base = mount @ app_label @ ''/'' @ model_name @ ''/''
      in [(n @ ''_changelist'', [Lit base]),
          (n @ ''_add'', [Lit (base @ ''add/'')]),
          (n @ ''_history'', [Lit base, Param, Lit ''/history/'']),
          (n @ ''_delete'', [Lit base, Param, Lit ''/delete/'']),
          (n @ ''_change'', [Lit base, Param, Lit ''/change/''])])"

text \<open>The site-wide names (\<^verbatim>\<open>AdminSite.get_urls\<close>).\<close>

definition site_wide_urls :: "string \<Rightarrow> urlconf" where
  "site_wide_urls mount =
     [(''admin:index'', [Lit mount]),
      (''admin:login'', [Lit (mount @ ''login/'')]),
      (''admin:logout'', [Lit (mount @ ''logout/'')]),
      (''admin:password_change'', [Lit (mount @ ''password_change/'')]),
      (''admin:password_change_done'', [Lit (mount @ ''password_change/done/'')]),
      (''admin:autocomplete'', [Lit (mount @ ''autocomplete/'')]),
      (''admin:jsi18n'', [Lit (mount @ ''jsi18n/'')]),
      (''admin:view_on_site'', [Lit (mount @ ''r/''), Param, Lit ''/'', Param, Lit ''/'']),
      (''admin:app_list'', [Lit mount, Param, Lit ''/''])]"

text \<open>
  The four \<^verbatim>\<open>@admin.register\<close> decorators of the module register Department, Teacher,
  Application and Payment; ApplicationFile is only an inline. The app label is the
  label of the application this module belongs to, by default the name of its package,
  which for \<^verbatim>\<open>admission/admin.py\<close> is \<^verbatim>\<open>admission\<close>. The project's settings and URL
  configuration are not part of the module, so the label and the mount path are
  parameters.
\<close>

definition registered_models :: "string list" where
  "registered_models = [''department'', ''teacher'', ''application'', ''payment'']"

definition admin_urls :: "string \<Rightarrow> string \<Rightarrow> urlconf" where
  "admin_urls mount app_label =
     site_wide_urls mount @ concat (map (model_urls mount app_label) registered_models)"

subsection \<open>The records\<close>

text \<open>
  Modelled from the spec: \<^verbatim>\<open>admission/models.py\<close> is not part of the sources. The
  records carry the fields that the spec's data model lists and that the admin
  configuration names in \<^verbatim>\<open>list_display\<close> and \<^verbatim>\<open>fieldsets\<close>. Primary keys are
  integers, timestamps are integers, money and grades are integers in their smallest
  unit, a foreign key holds the primary key of the row it refers to, and a status is the
  stored string. A file field holds the stored file's name, empty when no file is
  attached.
\<close>

record department =
  dept_id :: int
  code :: string
  name :: string
  seats :: int
  total_credits :: int
  per_credit_fee :: int

record application =
  app_id :: int
  full_name :: string
  email :: string
  phone :: string
  address :: string
  department_id :: int
  program :: string
  previous_education :: string
  cgpa :: int
  status :: string
  applied_at :: int
  updated_at :: int
  app_notes :: string

record application_file =
  file_id :: int
  file_application_id :: int
  file_field :: string
  uploaded_at :: int

record payment =
  payment_id :: int
  pay_application_id :: int
  amount :: int
  currency :: string
  payment_status :: string
  payment_method :: string
  transaction_id :: string
  paid_at :: "int option"
  created_at :: int

text \<open>The record store: one table per model, a table being the list of its rows.\<close>

record database =
  departments :: "department list"
  applications :: "application list"
  application_files :: "application_file list"
  payments :: "payment list"

subsection \<open>Related-object queries\<close>

text \<open>The reverse managers \<^verbatim>\<open>obj.application_set\<close>, \<^verbatim>\<open>obj.applicationfile_set\<close> and
  \<^verbatim>\<open>obj.payment_set\<close> select the rows whose foreign key is the object's primary key.\<close>

definition application_set :: "database \<Rightarrow> department \<Rightarrow> application list" where
  "application_set db obj = filter (\<lambda>a. department_id a = dept_id obj) (applications db)"

definition applicationfile_set :: "database \<Rightarrow> application \<Rightarrow> application_file list" where
  "applicationfile_set db obj =
     filter (\<lambda>f. file_application_id f = app_id obj) (application_files db)"

definition payment_set :: "database \<Rightarrow> application \<Rightarrow> payment list" where
  "payment_set db obj = filter (\<lambda>p. pay_application_id p = app_id obj) (payments db)"

text \<open>\<^verbatim>\<open>payment.application\<close> fetches the row the foreign key names and raises
  DoesNotExist when there is none.\<close>

definition payment_application :: "database \<Rightarrow> payment \<Rightarrow> error + application" where
  "payment_application db obj =
     (case find (\<lambda>a. app_id a = pay_application_id obj) (applications db) of
        None \<Rightarrow> Inl DoesNotExist
      | Some a \<Rightarrow> Inr a)"

text \<open>\<^verbatim>\<open>aggregate(total=Sum('amount'))['total']\<close> is None on an empty selection, and
  \<^verbatim>\<open>x or 0\<close> replaces None and a zero total by the integer 0.\<close>

definition aggregate_Sum :: "int list \<Rightarrow> int option" where
  "aggregate_Sum xs = (if xs = [] then None else Some (sum_list xs))"

definition or_0 :: "int option \<Rightarrow> int" where
  "or_0 t = (case t of None \<Rightarrow> 0 | Some v \<Rightarrow> if v = 0 then 0 else v)"

subsection \<open>DepartmentAdmin\<close>

definition application_count :: "urlconf \<Rightarrow> database \<Rightarrow> department \<Rightarrow> error + string" where
  \<open>application_count conf db obj =
     (let count = length (application_set db obj) in
      case reverse conf ''admin:appname_application_changelist'' [] of
        Inl e \<Rightarrow> Inl e
      | Inr base \<Rightarrow>
          (let url = base @ ''?department__id__exact='' @ str_int (dept_id obj)
           in format_html ''<a href="{}">{}</a>'' [url, str_nat count]))\<close>

subsection \<open>ApplicationFileInline\<close>

definition inline_fields :: "string list" where
  "inline_fields = [''file'', ''file_preview'', ''uploaded_at'']"

definition inline_readonly_fields :: "string list" where
  "inline_readonly_fields = [''uploaded_at'', ''file_preview'']"

text \<open>
  \<^verbatim>\<open>obj.file\<close> is true when a file name is stored; \<^verbatim>\<open>obj.file.url\<close> is the URL the
  storage backend gives that name. The backend is configured outside this module, so
  it is a parameter.
\<close>

definition file_preview :: "(string \<Rightarrow> string) \<Rightarrow> application_file \<Rightarrow> error + string" where
  \<open>file_preview storage_url obj =
     (if file_field obj \<noteq> [] then
        format_html ''<a href="{}" target="_blank">View File</a>'' [storage_url (file_field obj)]
      else Inr ''-'')\<close>

text \<open>
  The inline's form is built from \<^verbatim>\<open>fields\<close> without \<^verbatim>\<open>readonly_fields\<close>; saving an
  edited row assigns the submitted value of each form field to the row and of no other
  field, whatever else the submission carries.
\<close>

datatype field_value = FileValue string | TimeValue int

definition inline_form_fields :: "string list" where
  "inline_form_fields = filter (\<lambda>f. f \<notin> set inline_readonly_fields) inline_fields"

definition assign_field :: "string \<Rightarrow> field_value \<Rightarrow> application_file \<Rightarrow> application_file" where
  "assign_field f v obj =
     (case v of
        FileValue s \<Rightarrow> if f = ''file'' then obj\<lparr>file_field := s\<rparr> else obj
      | TimeValue t \<Rightarrow> if f = ''uploaded_at'' then obj\<lparr>uploaded_at := t\<rparr> else obj)"

definition inline_save :: "(string \<rightharpoonup> field_value) \<Rightarrow> application_file \<Rightarrow> application_file" where
  "inline_save submitted obj =
     fold (\<lambda>f row. case submitted f of None \<Rightarrow> row | Some v \<Rightarrow> assign_field f v row)
       inline_form_fields obj"

subsection \<open>ApplicationAdmin\<close>

definition check_mark :: string where
  "check_mark = [CHR 0xE2, CHR 0x9C, CHR 0x93]"

definition ballot_x :: string where
  "ballot_x = [CHR 0xE2, CHR 0x9C, CHR 0x97]"

definition has_payment :: "database \<Rightarrow> application \<Rightarrow> error + string" where
  \<open>has_payment db obj =
     (let payments = filter (\<lambda>p. payment_status p = ''completed'') (payment_set db obj) in
      if payments \<noteq> [] then
        (let total_paid = or_0 (aggregate_Sum (map amount payments))
         in format_html (''<span style="color: green;">'' @ check_mark @ '' (${})</span>'')
              [str_int total_paid])
      else format_html (''<span style="color: red;">'' @ ballot_x @ ''</span>'') [])\<close>

definition file_count :: "database \<Rightarrow> application \<Rightarrow> nat" where
  "file_count db obj = length (applicationfile_set db obj)"

text \<open>
  \<^verbatim>\<open>queryset.update(status=v)\<close> writes \<^verbatim>\<open>v\<close> into the status column of every selected
  row in one statement; it calls no \<^verbatim>\<open>save\<close> and touches no other column or table. The
  queryset the admin passes to an action is the set of rows ticked in the list, given
  here by their primary keys.
\<close>

definition queryset_update_status :: "int set \<Rightarrow> string \<Rightarrow> database \<Rightarrow> database" where
  "queryset_update_status queryset v db =
     db\<lparr>applications :=
          map (\<lambda>a. if app_id a \<in> queryset then a\<lparr>status := v\<rparr> else a) (applications db)\<rparr>"

definition mark_as_pending :: "int set \<Rightarrow> database \<Rightarrow> database" where
  "mark_as_pending queryset db = queryset_update_status queryset ''pending'' db"

definition mark_as_under_review :: "int set \<Rightarrow> database \<Rightarrow> database" where
  "mark_as_under_review queryset db = queryset_update_status queryset ''under_review'' db"

definition mark_as_approved :: "int set \<Rightarrow> database \<Rightarrow> database" where
  "mark_as_approved queryset db = queryset_update_status queryset ''approved'' db"

definition mark_as_rejected :: "int set \<Rightarrow> database \<Rightarrow> database" where
  "mark_as_rejected queryset db = queryset_update_status queryset ''rejected'' db"

subsection \<open>PaymentAdmin\<close>

definition application_link :: "urlconf \<Rightarrow> database \<Rightarrow> payment \<Rightarrow> error + string" where
  \<open>application_link conf db obj =
     (case payment_application db obj of
        Inl e \<Rightarrow> Inl e
      | Inr app \<Rightarrow>
          (case reverse conf ''admin:appname_application_change'' [str_int (app_id app)] of
             Inl e \<Rightarrow> Inl e
           | Inr link \<Rightarrow> format_html ''<a href="{}">{}</a>'' [link, full_name app]))\<close>

subsection \<open>Editing the status in the list view\<close>

text \<open>
  Modelled from the spec: the choices of \<^verbatim>\<open>Application.status\<close> are declared in
  \<^verbatim>\<open>models.py\<close>, which is not part of the sources; the spec gives the enumeration as
  pending, under\_review, approved, rejected.
\<close>

definition STATUS_CHOICES :: "string list" where
  "STATUS_CHOICES = [''pending'', ''under_review'', ''approved'', ''rejected'']"

text \<open>
  \<^verbatim>\<open>list_editable = ('status',)\<close>: the list view offers the status of each row as a form
  field; a submitted value is accepted when it is one of the field's choices
  (\<open>status_step\<close> below asks for that) and is then stored in the row with that primary
  key. Only the status column of the save is represented.
\<close>

definition list_editable_save :: "int \<Rightarrow> string \<Rightarrow> database \<Rightarrow> database" where
  "list_editable_save pk v db =
     db\<lparr>applications :=
          map (\<lambda>a. if app_id a = pk then a\<lparr>status := v\<rparr> else a) (applications db)\<rparr>"

subsection \<open>What the properties speak about\<close>

text \<open>The four bulk actions, each with the value it writes.\<close>

definition bulk_actions :: "((int set \<Rightarrow> database \<Rightarrow> database) \<times> string) list" where
  "bulk_actions =
     [(mark_as_pending, ''pending''),
      (mark_as_under_review, ''under_review''),
      (mark_as_approved, ''approved''),
      (mark_as_rejected, ''rejected'')]"

text \<open>
  One step of the status of the row at position \<open>i\<close> of the Application table: a bulk
  action on any selection, or an accepted edit of that row's status in the list view.
\<close>

inductive status_step :: "string \<Rightarrow> string \<Rightarrow> bool" where
  action:
    "(act, target) \<in> set bulk_actions \<Longrightarrow> i < length (applications db) \<Longrightarrow>
     status_step (status (applications db ! i))
                 (status (applications (act queryset db) ! i))"
| list_edit:
    "v \<in> set STATUS_CHOICES \<Longrightarrow> i < length (applications db) \<Longrightarrow>
     status_step (status (applications db ! i))
                 (status (applications (list_editable_save (app_id (applications db ! i)) v db) ! i))"

text \<open>The completed payments of an application, and their total.\<close>

definition completed_payments :: "database \<Rightarrow> application \<Rightarrow> payment list" where
  "completed_payments db obj =
     filter (\<lambda>p. pay_application_id p = app_id obj \<and> payment_status p = ''completed'')
       (payments db)"

definition completed_total :: "database \<Rightarrow> application \<Rightarrow> int" where
  "completed_total db obj = sum_list (map amount (completed_payments db obj))"

text \<open>
  What a rendered column shows: the positive indicator is the check mark, the negative
  one the ballot cross, and an amount \<open>n\<close> is shown as \<^verbatim>\<open>($n)\<close>. A column that raised
  shows nothing.
\<close>

definition returns_value :: "error + 'a \<Rightarrow> bool" where
  "returns_value r = (case r of Inl e \<Rightarrow> False | Inr v \<Rightarrow> True)"

definition renders :: "string \<Rightarrow> error + string \<Rightarrow> bool" where
  "renders piece r = (case r of Inl e \<Rightarrow> False | Inr html \<Rightarrow> sublist piece html)"

definition positive_indicator :: "error + string \<Rightarrow> bool" where
  "positive_indicator r = renders check_mark r"

definition negative_indicator :: "error + string \<Rightarrow> bool" where
  "negative_indicator r = renders ballot_x r"

definition displays_amount :: "error + string \<Rightarrow> int \<Rightarrow> bool" where
  "displays_amount r n = renders (''($'' @ str_int n @ '')'') r"

text \<open>The HTML text of a hyperlink: target and label are escaped by \<^verbatim>\<open>format_html\<close>.\<close>

definition hyperlink :: "string \<Rightarrow> string \<Rightarrow> string" where
  \<open>hyperlink href label =
     ''<a href="'' @ conditional_escape href @ ''">'' @ conditional_escape label @ ''</a>''\<close>

subsection \<open>Sample data\<close>

text \<open>
  The example of the spec: department D1 with three applications; application A1 has two
  completed payments of 100 and 50 and a pending one of 75, and one uploaded file.
\<close>

definition sample_department :: department where
  "sample_department =
     \<lparr>dept_id = 1, code = ''CSE'', name = ''Computer Science'', seats = 60,
      total_credits = 160, per_credit_fee = 5000\<rparr>"

definition sample_application :: "int \<Rightarrow> string \<Rightarrow> string \<Rightarrow> application" where
  "sample_application pk who st =
     \<lparr>app_id = pk, full_name = who, email = ''a@uap.example'', phone = ''01700'',
      address = ''Dhaka'', department_id = 1, program = ''BSc'',
      previous_education = ''HSC'', cgpa = 350, status = st, applied_at = 10,
      updated_at = 20, app_notes = []\<rparr>"

definition sample_payment :: "int \<Rightarrow> int \<Rightarrow> int \<Rightarrow> string \<Rightarrow> payment" where
  "sample_payment pk app n st =
     \<lparr>payment_id = pk, pay_application_id = app, amount = n, currency = ''USD'',
      payment_status = st, payment_method = ''card'', transaction_id = ''T'',
      paid_at = None, created_at = 30\<rparr>"

definition sample_file :: application_file where
  "sample_file =
     \<lparr>file_id = 1, file_application_id = 1, file_field = ''docs/cert.pdf'', uploaded_at = 40\<rparr>"

definition A1 :: application where
  "A1 = sample_application 1 ''Ann <A1>'' ''pending''"

definition A2 :: application where
  "A2 = sample_application 2 ''Bob'' ''approved''"

definition A3 :: application where
  "A3 = sample_application 3 ''Cy'' ''rejected''"

definition sample_db :: database where
  "sample_db =
     \<lparr>departments = [sample_department],
      applications = [A1, A2, A3],
      application_files = [sample_file],
      payments = [sample_payment 1 1 100 ''completed'', sample_payment 2 1 50 ''completed'',
                  sample_payment 3 1 75 ''pending'', sample_payment 4 2 20 ''pending'']\<rparr>"

definition sample_storage_url :: "string \<Rightarrow> string" where
  "sample_storage_url file_name = ''/media/'' @ file_name"

section \<open>Facts about the framework functions\<close>

lemma format_html_anchor:
  \<open>format_html ''<a href="{}">{}</a>'' [u, l] = Inr (hyperlink u l)\<close>
  by (simp add: hyperlink_def)

lemma format_html_preview:
  \<open>format_html ''<a href="{}" target="_blank">View File</a>'' [u] =
     Inr (''<a href="'' @ conditional_escape u @ ''" target="_blank">View File</a>'')\<close>
  by simp

lemma format_html_green:
  \<open>format_html (''<span style="color: green;">'' @ check_mark @ '' (${})</span>'') [a] =
     Inr (''<span style="color: green;">'' @ check_mark @ '' ($'' @ conditional_escape a @ '')</span>'')\<close>
  by (simp add: check_mark_def)

lemma format_html_red:
  \<open>format_html (''<span style="color: red;">'' @ ballot_x @ ''</span>'') [] =
     Inr (''<span style="color: red;">'' @ ballot_x @ ''</span>'')\<close>
  by (simp add: ballot_x_def)

lemma escape_digit: "d < 10 \<Longrightarrow> escape_char (digit_char d) = [digit_char d]"
proof -
  have "\<forall>c \<in> set ''0123456789''. escape_char c = [c]"
    by (simp add: escape_char_def)
  moreover assume "d < 10"
  then have "digit_char d \<in> set ''0123456789''"
    unfolding digit_char_def by (intro nth_mem) simp
  ultimately show ?thesis by blast
qed

lemma escape_str_nat: "conditional_escape (str_nat n) = str_nat n"
proof (induction n rule: str_nat.induct)
  case (1 n)
  show ?case
  proof (cases "n < 10")
    case True
    then show ?thesis
      by (subst (1 2) str_nat.simps) (simp add: conditional_escape_def escape_digit)
  next
    case False
    have "n mod 10 < 10" by simp
    with False 1 show ?thesis
      by (subst (1 2) str_nat.simps) (simp add: conditional_escape_def escape_digit)
  qed
qed

lemma escape_str_int: "conditional_escape (str_int i) = str_int i"
  using escape_str_nat [of "nat (- i)"] escape_str_nat [of "nat i"]
  by (simp add: str_int_def conditional_escape_def escape_char_def)

lemma append_literal_eq:
  "(label @ s = t) \<longleftrightarrow>
     (length s \<le> length t \<and> label = take (length t - length s) t \<and> s = drop (length t - length s) t)"
proof
  assume h: "label @ s = t"
  then have "length t = length label + length s" by auto
  with h show "length s \<le> length t \<and> label = take (length t - length s) t \<and>
      s = drop (length t - length s) t"
    by auto
next
  assume "length s \<le> length t \<and> label = take (length t - length s) t \<and>
      s = drop (length t - length s) t"
  then have "label @ s = take (length t - length s) t @ drop (length t - length s) t"
    by simp
  then show "label @ s = t" by simp
qed

lemma map_of_changelist:
  "map_of (admin_urls mount label) ''admin:appname_application_changelist'' =
     (if label = ''appname'' then Some [Lit (mount @ ''appname/application/'')] else None)"
  by (simp add: admin_urls_def site_wide_urls_def model_urls_def registered_models_def Let_def
      append_literal_eq)

lemma map_of_change:
  "map_of (admin_urls mount label) ''admin:appname_application_change'' =
     (if label = ''appname''
      then Some [Lit (mount @ ''appname/application/''), Param, Lit ''/change/''] else None)"
  by (simp add: admin_urls_def site_wide_urls_def model_urls_def registered_models_def Let_def
      append_literal_eq)

lemma application_count_result:
  "application_count (admin_urls mount label) db obj =
     (if label = ''appname''
      then Inr (hyperlink (mount @ ''appname/application/?department__id__exact='' @ str_int (dept_id obj))
                  (str_nat (length (application_set db obj))))
      else Inl NoReverseMatch)"
  by (simp add: application_count_def reverse_def map_of_changelist format_html_anchor Let_def
           del: format_html.simps)

lemma application_link_result:
  "application_link (admin_urls mount label) db obj =
     (case payment_application db obj of
        Inl e \<Rightarrow> Inl e
      | Inr app \<Rightarrow>
          if label = ''appname''
          then Inr (hyperlink (mount @ ''appname/application/'' @ str_int (app_id app) @ ''/change/'')
                      (full_name app))
          else Inl NoReverseMatch)"
  by (simp add: application_link_def reverse_def map_of_change format_html_anchor
           del: format_html.simps split: sum.splits)

subsection \<open>The payment column\<close>

lemma or_0_aggregate_Sum: "or_0 (aggregate_Sum xs) = sum_list xs"
  by (simp add: or_0_def aggregate_Sum_def)

lemma completed_filter:
  "filter (\<lambda>p. payment_status p = ''completed'') (payment_set db obj) = completed_payments db obj"
  by (simp add: payment_set_def completed_payments_def)

lemma has_payment_result:
  \<open>has_payment db obj =
     (if completed_payments db obj \<noteq> []
      then Inr (''<span style="color: green;">'' @ check_mark @ '' ($'' @
                str_int (completed_total db obj) @ '')</span>'')
      else Inr (''<span style="color: red;">'' @ ballot_x @ ''</span>''))\<close>
  unfolding has_payment_def completed_filter Let_def or_0_aggregate_Sum
  by (simp only: format_html_green format_html_red escape_str_int completed_total_def)

lemma completed_payments_empty:
  "completed_payments db obj = [] \<longleftrightarrow>
     (\<forall>p \<in> set (payments db). pay_application_id p = app_id obj \<longrightarrow> payment_status p \<noteq> ''completed'')"
  by (auto simp: completed_payments_def filter_empty_conv)

lemma red_no_check_mark:
  \<open>\<not> sublist check_mark (''<span style="color: red;">'' @ ballot_x @ ''</span>'')\<close>
  by (simp add: check_mark_def ballot_x_def sublist_code)

lemma red_ballot_x:
  \<open>sublist ballot_x (''<span style="color: red;">'' @ ballot_x @ ''</span>'')\<close>
  by (rule sublist_appendI)

lemma red_no_amount:
  \<open>\<not> sublist (''($'' @ n @ '')'') (''<span style="color: red;">'' @ ballot_x @ ''</span>'')\<close>
proof
  assume "sublist (''($'' @ n @ '')'') (''<span style=\"color: red;\">'' @ ballot_x @ ''</span>'')"
  then have "set (''($'' @ n @ '')'') \<subseteq> set (''<span style=\"color: red;\">'' @ ballot_x @ ''</span>'')"
    by (rule set_mono_sublist)
  then show False by (simp add: ballot_x_def)
qed

lemma green_check_mark:
  \<open>sublist check_mark (''<span style="color: green;">'' @ check_mark @ rest)\<close>
  by (rule sublist_appendI)

lemma green_amount:
  \<open>sublist (''($'' @ n @ '')'')
     (''<span style="color: green;">'' @ check_mark @ '' ($'' @ n @ '')</span>'')\<close>
proof -
  have "''<span style=\"color: green;\">'' @ check_mark @ '' ($'' @ n @ '')</span>'' =
        (''<span style=\"color: green;\">'' @ check_mark @ '' '') @ (''($'' @ n @ '')'') @ ''</span>''"
    by simp
  then show ?thesis
    by (metis sublist_appendI)
qed

lemma sample_completed_A1:
  "completed_payments sample_db A1 =
     [sample_payment 1 1 100 ''completed'', sample_payment 2 1 50 ''completed'']"
  by (simp add: completed_payments_def sample_db_def A1_def sample_application_def
      sample_payment_def)

lemma sample_completed_A2: "completed_payments sample_db A2 = []"
  by (simp add: completed_payments_def sample_db_def A2_def sample_application_def
      sample_payment_def)

lemma sample_completed_A3: "completed_payments sample_db A3 = []"
  by (simp add: completed_payments_def sample_db_def A3_def sample_application_def
      sample_payment_def)

subsection \<open>The bulk update\<close>

lemma bulk_action_update:
  "(act, target) \<in> set bulk_actions \<Longrightarrow> act queryset db = queryset_update_status queryset target db"
  by (auto simp: bulk_actions_def mark_as_pending_def mark_as_under_review_def
      mark_as_approved_def mark_as_rejected_def)

lemma update_length:
  "length (applications (queryset_update_status queryset v db)) = length (applications db)"
  by (simp add: queryset_update_status_def)

lemma update_row:
  "i < length (applications db) \<Longrightarrow>
   applications (queryset_update_status queryset v db) ! i =
     (if app_id (applications db ! i) \<in> queryset
      then (applications db ! i)\<lparr>status := v\<rparr> else applications db ! i)"
  by (simp add: queryset_update_status_def)

lemma update_other_tables:
  "departments (queryset_update_status queryset v db) = departments db"
  "application_files (queryset_update_status queryset v db) = application_files db"
  "payments (queryset_update_status queryset v db) = payments db"
  by (simp_all add: queryset_update_status_def)

lemma approved_is_bulk_action: "(mark_as_approved, ''approved'') \<in> set bulk_actions"
  by (simp add: bulk_actions_def)

lemma pending_is_bulk_action: "(mark_as_pending, ''pending'') \<in> set bulk_actions"
  by (simp add: bulk_actions_def)

lemma list_edit_row:
  "i < length (applications db) \<Longrightarrow>
   applications (list_editable_save (app_id (applications db ! i)) v db) ! i =
     (applications db ! i)\<lparr>status := v\<rparr>"
  by (simp add: list_editable_save_def)

lemma choice_has_action:
  assumes "v \<in> set STATUS_CHOICES"
  shows "\<exists>act. (act, v) \<in> set bulk_actions"
proof -
  have "map snd bulk_actions = STATUS_CHOICES"
    by (simp add: bulk_actions_def STATUS_CHOICES_def)
  with assms have "v \<in> snd ` set bulk_actions"
    by (metis set_map)
  then show ?thesis by force
qed

lemma bulk_action_reaches:
  assumes "(act, target) \<in> set bulk_actions"
  shows "status_step s target"
proof -
  define db where "db =
    \<lparr>departments = [], applications = [sample_application 1 ''X'' s],
     application_files = [], payments = []\<rparr>"
  have len: "0 < length (applications db)" by (simp add: db_def)
  have "status_step (status (applications db ! 0)) (status (applications (act {1} db) ! 0))"
    using assms len by (rule status_step.action)
  moreover have "status (applications db ! 0) = s"
    by (simp add: db_def sample_application_def)
  moreover have "status (applications (act {1} db) ! 0) = target"
    by (simp add: bulk_action_update [OF assms] queryset_update_status_def db_def
        sample_application_def)
  ultimately show ?thesis by simp
qed

subsection \<open>Counting related rows\<close>

lemma application_count_counts:
  "length (application_set db obj) =
     card {i. i < length (applications db) \<and> department_id (applications db ! i) = dept_id obj}"
  by (simp add: application_set_def length_filter_conv_card)

subsection \<open>The inline form\<close>

lemma inline_form_fields_eq: "inline_form_fields = [''file'']"
  by (simp add: inline_form_fields_def inline_fields_def inline_readonly_fields_def)

lemma assign_file_uploaded_at: "uploaded_at (assign_field ''file'' v obj) = uploaded_at obj"
  by (simp add: assign_field_def split: field_value.splits)

lemma inline_save_changes_file:
  "file_field (inline_save [''file'' \<mapsto> FileValue ''new.pdf'', ''uploaded_at'' \<mapsto> TimeValue 99]
       sample_file) = ''new.pdf''"
  by (simp add: inline_save_def inline_form_fields_eq assign_field_def)

subsection \<open>Which helpers return a value\<close>

text \<open>
  \<^verbatim>\<open>has_payment\<close> and \<^verbatim>\<open>file_preview\<close> always return a value (\<^verbatim>\<open>file_count\<close> and the
  bulk actions are total functions by their types). The two helpers that call
  \<^verbatim>\<open>reverse\<close> return a value exactly when the app label is \<^verbatim>\<open>appname\<close>, the label their
  URL names are written for, and, for \<^verbatim>\<open>application_link\<close>, the payment's application
  exists.
\<close>

lemma has_payment_total: "returns_value (has_payment db obj)"
  by (simp add: has_payment_result returns_value_def)

lemma file_preview_total: "returns_value (file_preview storage_url obj)"
  by (simp add: file_preview_def format_html_preview returns_value_def del: format_html.simps)

lemma payment_application_found:
  "(\<exists>a. payment_application db pay = Inr a) \<longleftrightarrow>
     (\<exists>a \<in> set (applications db). app_id a = pay_application_id pay)"
proof (cases "find (\<lambda>a. app_id a = pay_application_id pay) (applications db)")
  case None
  then have "\<not> (\<exists>a \<in> set (applications db). app_id a = pay_application_id pay)"
    by (simp add: find_None_iff)
  with None show ?thesis
    by (simp add: payment_application_def)
next
  case (Some a)
  then have "a \<in> set (applications db) \<and> app_id a = pay_application_id pay"
    by (auto simp: find_Some_iff)
  with Some show ?thesis
    by (auto simp: payment_application_def)
qed

lemma application_count_total_iff:
  "returns_value (application_count (admin_urls mount label) db dept) \<longleftrightarrow> label = ''appname''"
  by (simp add: application_count_result returns_value_def)

lemma application_link_total_iff:
  "returns_value (application_link (admin_urls mount label) db pay) \<longleftrightarrow>
     label = ''appname'' \<and> (\<exists>a \<in> set (applications db). app_id a = pay_application_id pay)"
  unfolding payment_application_found [symmetric]
  by (cases "payment_application db pay")
     (simp_all add: application_link_result returns_value_def)

subsection \<open>The sample data\<close>

lemma sample_applications: "applications sample_db = [A1, A2, A3]"
  by (simp add: sample_db_def)

lemma sample_app_ids: "app_id A1 = 1" "app_id A2 = 2" "app_id A3 = 3"
  by (simp_all add: A1_def A2_def A3_def sample_application_def)

lemma sample_A1_name: "full_name A1 = ''Ann <A1>''"
  by (simp add: A1_def sample_application_def)

lemma sample_A2_status: "status A2 = ''approved''"
  by (simp add: A2_def sample_application_def)

lemma sample_files: "application_files sample_db = [sample_file]"
  by (simp add: sample_db_def)

lemma sample_payment_application:
  "payment_application sample_db (sample_payment 1 1 100 ''completed'') = Inr A1"
  by (simp add: payment_application_def sample_db_def sample_payment_def A1_def
      sample_application_def)

lemma application_count_sample_appname:
  \<open>application_count (admin_urls ''/admin/'' ''appname'') sample_db sample_department =
     Inr ''<a href="/admin/appname/application/?department__id__exact=1">3</a>''\<close>
  by (simp add: application_count_result hyperlink_def application_set_def sample_db_def
      sample_department_def A1_def A2_def A3_def sample_application_def str_int_def
      str_nat.simps digit_char_def conditional_escape_def escape_char_def)

lemma application_link_sample_appname:
  \<open>application_link (admin_urls ''/admin/'' ''appname'') sample_db
     (sample_payment 1 1 100 ''completed'') =
     Inr ''<a href="/admin/appname/application/1/change/">Ann &lt;A1&gt;</a>''\<close>
  by (simp add: application_link_result sample_payment_application hyperlink_def A1_def
      sample_application_def str_int_def str_nat.simps digit_char_def conditional_escape_def
      escape_char_def)

section \<open>The properties\<close>

subsection \<open>ApplicationAdmin.has\_payment\<close>

text \<open>
  C1, as the code has it. The column renders the positive indicator exactly when the
  application has at least one related payment whose status is completed, and then the
  amount it displays is the sum of the amounts of those payments.
\<close>

theorem has_payment_column:
  "(positive_indicator (has_payment db obj) \<longleftrightarrow>
      (\<exists>p \<in> set (payments db). pay_application_id p = app_id obj \<and> payment_status p = ''completed''))
   \<and> ((\<exists>p \<in> set (payments db). pay_application_id p = app_id obj \<and> payment_status p = ''completed'')
        \<longrightarrow> displays_amount (has_payment db obj) (completed_total db obj))"
proof (cases "completed_payments db obj = []")
  case True
  then have "has_payment db obj = Inr (''<span style=\"color: red;\">'' @ ballot_x @ ''</span>'')"
    by (simp only: has_payment_result if_False simp_thms)
  with True show ?thesis
    using red_no_check_mark
    by (simp only: positive_indicator_def renders_def sum.case completed_payments_empty) blast
next
  case False
  then have "has_payment db obj =
      Inr (''<span style=\"color: green;\">'' @ check_mark @ '' ($'' @
           str_int (completed_total db obj) @ '')</span>'')"
    by (simp only: has_payment_result if_True simp_thms)
  with False show ?thesis
    using green_check_mark green_amount
    by (simp only: positive_indicator_def displays_amount_def renders_def sum.case
        completed_payments_empty) blast
qed

theorem has_payment_column_witness:
  "positive_indicator (has_payment sample_db A1) \<and> displays_amount (has_payment sample_db A1) 150"
proof -
  have ex: "\<exists>p \<in> set (payments sample_db).
      pay_application_id p = app_id A1 \<and> payment_status p = ''completed''"
    by (simp add: sample_db_def A1_def sample_application_def sample_payment_def)
  have total: "completed_total sample_db A1 = 150"
    by (simp add: completed_total_def sample_completed_A1 sample_payment_def)
  from has_payment_column [of sample_db A1] ex total show ?thesis
    by simp
qed

text \<open>
  C1 as stated also promises that 0 is displayed when there is no completed payment.
  Application A3 of the sample data has none, its total is 0, and the column displays
  no \<^verbatim>\<open>($0)\<close>: the guard \<^verbatim>\<open>if payments.exists()\<close> sends it to the branch that formats
  no amount.
\<close>

theorem has_payment_zero_counterexample:
  "completed_total sample_db A3 = 0 \<and> \<not> displays_amount (has_payment sample_db A3) 0"
proof -
  have "has_payment sample_db A3 = Inr (''<span style=\"color: red;\">'' @ ballot_x @ ''</span>'')"
    by (simp only: has_payment_result sample_completed_A3 simp_thms if_False)
  then show ?thesis
    using red_no_amount [of "str_int 0"]
    by (simp only: displays_amount_def renders_def sum.case completed_total_def
        sample_completed_A3 list.map sum_list.Nil simp_thms)
qed

text \<open>
  C9. For an application with no related completed payment the column is exactly the
  red span with the ballot cross: the negative indicator, not the positive one, and no
  amount of any value, so in particular not 0.
\<close>

theorem has_payment_without_completed:
  assumes "\<forall>p \<in> set (payments db).
      pay_application_id p = app_id obj \<longrightarrow> payment_status p \<noteq> ''completed''"
  shows \<open>has_payment db obj = Inr (''<span style="color: red;">'' @ ballot_x @ ''</span>'')
    \<and> negative_indicator (has_payment db obj)
    \<and> \<not> positive_indicator (has_payment db obj)
    \<and> (\<forall>n. \<not> displays_amount (has_payment db obj) n)\<close>
proof -
  from assms have "completed_payments db obj = []"
    by (simp only: completed_payments_empty)
  then have r: "has_payment db obj = Inr (''<span style=\"color: red;\">'' @ ballot_x @ ''</span>'')"
    by (simp only: has_payment_result if_False simp_thms)
  show ?thesis
    using red_no_check_mark red_ballot_x red_no_amount
    by (simp only: r negative_indicator_def positive_indicator_def displays_amount_def
        renders_def sum.case simp_thms)
qed

theorem has_payment_without_completed_witness:
  \<open>has_payment sample_db A2 = Inr (''<span style="color: red;">'' @ ballot_x @ ''</span>'')
   \<and> negative_indicator (has_payment sample_db A2)
   \<and> \<not> positive_indicator (has_payment sample_db A2)
   \<and> \<not> displays_amount (has_payment sample_db A2) 0\<close>
proof -
  have h: "\<forall>p \<in> set (payments sample_db).
      pay_application_id p = app_id A2 \<longrightarrow> payment_status p \<noteq> ''completed''"
    by (simp add: sample_db_def A2_def sample_application_def sample_payment_def)
  from has_payment_without_completed [OF h] show ?thesis
    by blast
qed

subsection \<open>The bulk actions\<close>

text \<open>
  C2. Each of the four bulk actions (mark\_as\_pending, mark\_as\_under\_review,
  mark\_as\_approved, mark\_as\_rejected) keeps the rows of the Application table in place,
  sets the status of every selected row to the action's fixed value whatever the status
  was before, and leaves every row that is not selected exactly as it was.
\<close>

theorem bulk_action_sets_status:
  assumes "(act, target) \<in> set bulk_actions"
  shows "length (applications (act queryset db)) = length (applications db)
    \<and> (\<forall>i < length (applications db).
          (app_id (applications db ! i) \<in> queryset \<longrightarrow>
             status (applications (act queryset db) ! i) = target)
        \<and> (app_id (applications db ! i) \<notin> queryset \<longrightarrow>
             applications (act queryset db) ! i = applications db ! i))"
  by (simp add: bulk_action_update [OF assms] update_length update_row)

theorem bulk_action_sets_status_witness:
  "status (applications (mark_as_approved {1, 3} sample_db) ! 0) = ''approved''
   \<and> status (applications (mark_as_approved {1, 3} sample_db) ! 2) = ''approved''
   \<and> applications (mark_as_approved {1, 3} sample_db) ! 1 = A2"
  using bulk_action_sets_status [OF approved_is_bulk_action, of "{1, 3}" sample_db]
  by (simp add: sample_applications sample_app_ids)

text \<open>
  C10. On a selected row a bulk action changes the status and nothing else: the row
  after the action is the row before it with the status replaced, so full\_name, email,
  phone, address, department, program, previous\_education, cgpa, notes, applied\_at (and
  the primary key and updated\_at) are unchanged; its related files and payments are the
  same, and the Department, ApplicationFile and Payment tables are untouched.
\<close>

theorem bulk_action_frame:
  assumes "(act, target) \<in> set bulk_actions"
    and "i < length (applications db)"
    and "app_id (applications db ! i) \<in> queryset"
  shows "applications (act queryset db) ! i = (applications db ! i)\<lparr>status := target\<rparr>
    \<and> app_id (applications (act queryset db) ! i) = app_id (applications db ! i)
    \<and> full_name (applications (act queryset db) ! i) = full_name (applications db ! i)
    \<and> email (applications (act queryset db) ! i) = email (applications db ! i)
    \<and> phone (applications (act queryset db) ! i) = phone (applications db ! i)
    \<and> address (applications (act queryset db) ! i) = address (applications db ! i)
    \<and> department_id (applications (act queryset db) ! i) = department_id (applications db ! i)
    \<and> program (applications (act queryset db) ! i) = program (applications db ! i)
    \<and> previous_education (applications (act queryset db) ! i) =
        previous_education (applications db ! i)
    \<and> cgpa (applications (act queryset db) ! i) = cgpa (applications db ! i)
    \<and> app_notes (applications (act queryset db) ! i) = app_notes (applications db ! i)
    \<and> applied_at (applications (act queryset db) ! i) = applied_at (applications db ! i)
    \<and> updated_at (applications (act queryset db) ! i) = updated_at (applications db ! i)
    \<and> applicationfile_set (act queryset db) (applications (act queryset db) ! i) =
        applicationfile_set db (applications db ! i)
    \<and> payment_set (act queryset db) (applications (act queryset db) ! i) =
        payment_set db (applications db ! i)
    \<and> departments (act queryset db) = departments db
    \<and> application_files (act queryset db) = application_files db
    \<and> payments (act queryset db) = payments db"
  using assms(2,3)
  by (simp add: bulk_action_update [OF assms(1)] update_row update_other_tables
      applicationfile_set_def payment_set_def)

theorem bulk_action_frame_witness:
  "applications (mark_as_approved {1, 3} sample_db) ! 0 = A1\<lparr>status := ''approved''\<rparr>
   \<and> full_name (applications (mark_as_approved {1, 3} sample_db) ! 0) = ''Ann <A1>''
   \<and> payments (mark_as_approved {1, 3} sample_db) = payments sample_db
   \<and> application_files (mark_as_approved {1, 3} sample_db) = [sample_file]"
proof -
  have i: "0 < length (applications sample_db)"
    by (simp add: sample_applications)
  have sel: "app_id (applications sample_db ! 0) \<in> {1, 3}"
    by (simp add: sample_applications sample_app_ids)
  have row: "applications sample_db ! 0 = A1"
    by (simp add: sample_applications)
  from bulk_action_frame [OF approved_is_bulk_action i sel] show ?thesis
    by (simp add: row sample_A1_name sample_files)
qed

text \<open>
  C6. No transition of the status is refused or checked against the status stored
  before. For every database, every row of the Application table and every target among
  pending, under\_review, approved and rejected: a bulk action with that target exists;
  every bulk action with that target, run on any selection that contains the row, leaves
  the row with the target as its status; the in-place edit of the list view, submitted
  for that row with the target, leaves the row with the target as its status. Hence the
  step relation that the four bulk actions and the in-place edit induce relates the
  stored status of any row, and every one of the four statuses, to every one of the four
  statuses.
\<close>

theorem every_transition_permitted:
  assumes "i < length (applications db)" and "s' \<in> set STATUS_CHOICES"
  shows "(\<exists>act. (act, s') \<in> set bulk_actions)
    \<and> (\<forall>act queryset. (act, s') \<in> set bulk_actions \<longrightarrow>
          app_id (applications db ! i) \<in> queryset \<longrightarrow>
          status (applications (act queryset db) ! i) = s')
    \<and> status (applications (list_editable_save (app_id (applications db ! i)) s' db) ! i) = s'
    \<and> status_step (status (applications db ! i)) s'
    \<and> (\<forall>s \<in> set STATUS_CHOICES. status_step s s')"
proof (intro conjI allI impI ballI)
  show "\<exists>act. (act, s') \<in> set bulk_actions"
    using assms(2) by (rule choice_has_action)
next
  fix act queryset
  assume "(act, s') \<in> set bulk_actions" and "app_id (applications db ! i) \<in> queryset"
  then show "status (applications (act queryset db) ! i) = s'"
    using assms(1) by (simp add: bulk_action_update update_row)
next
  show "status (applications (list_editable_save (app_id (applications db ! i)) s' db) ! i) = s'"
    using assms(1) by (simp add: list_edit_row)
next
  from choice_has_action [OF assms(2)] obtain act where "(act, s') \<in> set bulk_actions" ..
  then show "status_step (status (applications db ! i)) s'"
    by (rule bulk_action_reaches)
next
  fix s
  from choice_has_action [OF assms(2)] obtain act where "(act, s') \<in> set bulk_actions" ..
  then show "status_step s s'"
    by (rule bulk_action_reaches)
qed

theorem every_transition_permitted_witness:
  "status (applications sample_db ! 1) = ''approved''
   \<and> status (applications (mark_as_pending {2} sample_db) ! 1) = ''pending''
   \<and> status (applications (list_editable_save 2 ''pending'' sample_db) ! 1) = ''pending''
   \<and> status_step ''approved'' ''pending''"
proof -
  have i: "1 < length (applications sample_db)"
    by (simp add: sample_applications)
  have v: "''pending'' \<in> set STATUS_CHOICES"
    by (simp add: STATUS_CHOICES_def)
  have key: "app_id (applications sample_db ! 1) = 2"
    by (simp add: sample_applications sample_app_ids)
  have before: "status (applications sample_db ! 1) = ''approved''"
    by (simp add: sample_applications sample_A2_status)
  note all = every_transition_permitted [OF i v, unfolded key before]
  from all have "status (applications (mark_as_pending {2} sample_db) ! 1) = ''pending''"
    using pending_is_bulk_action by blast
  with all before show ?thesis
    by blast
qed

subsection \<open>ApplicationAdmin.file\_count\<close>

text \<open>
  C5. For every application, file\_count is the number of rows of the ApplicationFile
  table whose foreign key is that application.
\<close>

theorem file_count_counts:
  "file_count db obj =
     card {i. i < length (application_files db)
            \<and> file_application_id (application_files db ! i) = app_id obj}"
  by (simp add: file_count_def applicationfile_set_def length_filter_conv_card)

subsection \<open>ApplicationFileInline\<close>

text \<open>
  C7. In the inline editor of an application's files, uploaded\_at is read-only: whatever
  is submitted, also a value for uploaded\_at itself, saving an edited row leaves its
  uploaded\_at as it was. The preview is one of the inline's fields, and for every file
  row with a file attached it is a link to the URL of that file.
\<close>

theorem inline_editor:
  \<open>uploaded_at (inline_save submitted obj) = uploaded_at obj
   \<and> ''uploaded_at'' \<in> set inline_readonly_fields
   \<and> ''file_preview'' \<in> set inline_fields
   \<and> (file_field obj \<noteq> [] \<longrightarrow>
        file_preview storage_url obj =
          Inr (''<a href="'' @ conditional_escape (storage_url (file_field obj)) @
               ''" target="_blank">View File</a>''))\<close>
  by (simp add: inline_save_def inline_form_fields_eq assign_file_uploaded_at
      inline_readonly_fields_def inline_fields_def file_preview_def format_html_preview
      del: format_html.simps split: option.splits)

theorem inline_editor_witness:
  \<open>uploaded_at (inline_save [''file'' \<mapsto> FileValue ''new.pdf'', ''uploaded_at'' \<mapsto> TimeValue 99]
       sample_file) = 40
   \<and> file_preview sample_storage_url sample_file =
       Inr ''<a href="/media/docs/cert.pdf" target="_blank">View File</a>''\<close>
  using inline_editor [of "[''file'' \<mapsto> FileValue ''new.pdf'', ''uploaded_at'' \<mapsto> TimeValue 99]"
      sample_file sample_storage_url]
  by (simp add: sample_file_def sample_storage_url_def conditional_escape_def escape_char_def)

subsection \<open>DepartmentAdmin.application\_count\<close>

text \<open>
  C3. The column is meant to show the number of applications of the department as a
  link to the Application list filtered by the department's identifier, and under an
  application labelled \<^verbatim>\<open>appname\<close> it does (\<open>application_count_result\<close>,
  \<open>application_count_counts\<close>). The admin site names the Application list after the
  label of the application the model belongs to, and this module is
  \<^verbatim>\<open>admission/admin.py\<close>: the list is \<^verbatim>\<open>admin:admission_application_changelist\<close>, the
  name \<^verbatim>\<open>admin:appname_application_changelist\<close> the helper reverses is not registered,
  and for department D1 of the sample data the helper raises NoReverseMatch instead of
  rendering the count and the link.
\<close>

theorem application_count_unresolved_name:
  "application_count (admin_urls ''/admin/'' ''admission'') sample_db sample_department =
     Inl NoReverseMatch"
  by (simp add: application_count_result)

subsection \<open>PaymentAdmin.application\_link\<close>

text \<open>
  C4. The column is meant to show the full name of the payment's application as a link
  to that application's change view, and under an application labelled \<^verbatim>\<open>appname\<close> it
  does (\<open>application_link_result\<close>). In the application \<^verbatim>\<open>admission\<close> the name
  \<^verbatim>\<open>admin:appname_application_change\<close> is not registered, and for the first payment of
  the sample data, whose application A1 exists, the helper raises NoReverseMatch instead
  of rendering the link.
\<close>

theorem application_link_unresolved_name:
  "application_link (admin_urls ''/admin/'' ''admission'') sample_db
     (sample_payment 1 1 100 ''completed'') = Inl NoReverseMatch"
  by (simp add: application_link_result sample_payment_application)

subsection \<open>Errors\<close>

text \<open>
  C8. The module defines no error of its own and recovers from none, and has\_payment,
  file\_count, file\_preview and the bulk actions return a value on every input
  (\<open>has_payment_total\<close>, \<open>file_preview_total\<close>). The helpers application\_count and
  application\_link do not: in the application \<^verbatim>\<open>admission\<close> they return no value on the
  well-formed rows of the sample data, because \<^verbatim>\<open>reverse\<close> raises NoReverseMatch for
  their URL names.
\<close>

theorem url_helpers_raise:
  "\<not> returns_value
       (application_count (admin_urls ''/admin/'' ''admission'') sample_db sample_department)
   \<and> \<not> returns_value
       (application_link (admin_urls ''/admin/'' ''admission'') sample_db
          (sample_payment 1 1 100 ''completed''))"
  by (simp add: application_count_total_iff application_link_total_iff)

end
